theory Spec2Isabelle
  imports Main "HOL-Library.Word" "HOL-Library.Sublist"
begin

section \<open>The spiking-MNIST notebook of NengoDL\<close>

text \<open>
  The repository is one Jupyter notebook, \<^verbatim>\<open>docs/examples/spiking-mnist.ipynb\<close>. Its code
  cells are embedded in three layers:
  \<^item> the array code of the notebook (reshape, added axes, \<^verbatim>\<open>np.tile\<close>, the slice
    \<^verbatim>\<open>[:, -1]\<close> of \<^verbatim>\<open>classification_accuracy\<close>) as functions on nested lists;
  \<^item> the \<^verbatim>\<open>with nengo.Network(seed=0) as net:\<close> block as state passing over the
    network under construction;
  \<^item> the notebook as a whole as a list of statements whose calls into TensorFlow,
    Nengo, NengoDL, matplotlib and urllib are recorded in a trace. What such a call
    does is not in the repository: whether it returns or raises is a parameter.
\<close>

subsection \<open>Arrays\<close>

text \<open>
  A numpy array of rank 2 or 3 is a nested list, outermost axis first. MNIST pixels and
  labels are \<^verbatim>\<open>uint8\<close>.
\<close>

type_synonym uint8 = "8 word"
type_synonym 'a array2 = "'a list list"
type_synonym 'a array3 = "'a list list list"

text \<open>
  What \<^verbatim>\<open>tf.keras.datasets.mnist.load_data()\<close> returns,
  \<^verbatim>\<open>(train_images, train_labels), (test_images, test_labels)\<close>: images of shape
  \<^verbatim>\<open>(N, 28, 28)\<close>, labels of shape \<^verbatim>\<open>(N,)\<close>.
\<close>

record mnist =
  loaded_train_images :: "uint8 array3"
  loaded_train_labels :: "uint8 list"
  loaded_test_images :: "uint8 array3"
  loaded_test_labels :: "uint8 list"

text \<open>\<^verbatim>\<open>x.reshape((x.shape[0], -1))\<close>: every image becomes one row.\<close>

definition flatten_images :: "'a array3 \<Rightarrow> 'a array2" where
  "flatten_images x = map concat x"

text \<open>\<^verbatim>\<open>x[:, None, :]\<close> on rank 2: shape \<^verbatim>\<open>(N, d)\<close> becomes \<^verbatim>\<open>(N, 1, d)\<close>.\<close>

definition add_time_axis :: "'a array2 \<Rightarrow> 'a array3" where
  "add_time_axis x = map (\<lambda>row. [row]) x"

text \<open>\<^verbatim>\<open>y[:, None, None]\<close> on rank 1: shape \<^verbatim>\<open>(N,)\<close> becomes \<^verbatim>\<open>(N, 1, 1)\<close>.\<close>

definition add_time_axes :: "'a list \<Rightarrow> 'a array3" where
  "add_time_axes y = map (\<lambda>l. [[l]]) y"

text \<open>
  \<^verbatim>\<open>np.tile(A, (r0, r1, r2))\<close> on rank 3: along every axis the array is repeated
  whole, \<^verbatim>\<open>r\<close> times.
\<close>

definition tile_axis :: "nat \<Rightarrow> 'a list \<Rightarrow> 'a list" where
  "tile_axis r xs = concat (replicate r xs)"

definition tile :: "'a array3 \<Rightarrow> nat \<times> nat \<times> nat \<Rightarrow> 'a array3" where
  "tile A reps =
     (case reps of (r0, r1, r2) \<Rightarrow>
        tile_axis r0 (map (\<lambda>plane. tile_axis r1 (map (tile_axis r2) plane)) A))"

definition n_steps :: nat where
  "n_steps = 30"

text \<open>
  The values of the notebook's four data variables: after the cell that flattens the
  images, and after the cell that adds the time axis.
\<close>

definition train_images_flat :: "mnist \<Rightarrow> uint8 array2" where
  "train_images_flat ds = flatten_images (loaded_train_images ds)"

definition test_images_flat :: "mnist \<Rightarrow> uint8 array2" where
  "test_images_flat ds = flatten_images (loaded_test_images ds)"

definition train_images :: "mnist \<Rightarrow> uint8 array3" where
  "train_images ds = add_time_axis (train_images_flat ds)"

definition train_labels :: "mnist \<Rightarrow> uint8 array3" where
  "train_labels ds = add_time_axes (loaded_train_labels ds)"

definition test_images :: "mnist \<Rightarrow> uint8 array3" where
  "test_images ds = tile (add_time_axis (test_images_flat ds)) (1, n_steps, 1)"

definition test_labels :: "mnist \<Rightarrow> uint8 array3" where
  "test_labels ds = tile (add_time_axes (loaded_test_labels ds)) (1, n_steps, 1)"

subsection \<open>The accuracy function\<close>

text \<open>
  \<^verbatim>\<open>y[:, -1]\<close> on rank 3 (batch, time, d): the last timestep of every example. Index
  \<^verbatim>\<open>-1\<close> on an axis of size 0 is an IndexError.
\<close>

datatype index_error = IndexError

definition last_timestep :: "'a array3 \<Rightarrow> index_error + 'a array2" where
  "last_timestep y =
     (if list_ex (\<lambda>steps. steps = []) y then Inl IndexError else Inr (map last y))"

text \<open>
  \<^verbatim>\<open>tf.metrics.sparse_categorical_accuracy\<close> belongs to TensorFlow; the notebook's
  function takes it as the parameter \<open>sparse_categorical_accuracy\<close>.
\<close>

definition classification_accuracy ::
  "('l array2 \<Rightarrow> 'p array2 \<Rightarrow> 'r) \<Rightarrow> 'l array3 \<Rightarrow> 'p array3 \<Rightarrow> index_error + 'r" where
  "classification_accuracy sparse_categorical_accuracy y_true y_pred =
     (case last_timestep y_true of
        Inl e \<Rightarrow> Inl e
      | Inr t \<Rightarrow>
          (case last_timestep y_pred of
             Inl e \<Rightarrow> Inl e
           | Inr p \<Rightarrow> Inr (sparse_categorical_accuracy t p)))"

subsection \<open>The network\<close>

text \<open>
  A Python float literal is kept as written: \<open>Decimal m k\<close> is the literal with the
  digits \<open>m\<close> and \<open>k\<close> decimal places, so \<^verbatim>\<open>0.01\<close> is \<open>Decimal 1 2\<close>.
\<close>

datatype decimal = Decimal nat nat

text \<open>
  The arguments of the network cell's constructors. \<^verbatim>\<open>strides\<close> is optional in
  \<^verbatim>\<open>Conv2D\<close>; the first convolution does not give it.
\<close>

datatype neuron = LIF (amplitude: decimal)

datatype keras_layer =
    Conv2D (filters: nat) (strides: "nat option") (kernel_size: nat)
  | Dense (units: nat)

datatype layer_func = KerasLayer keras_layer | NeuronLayer neuron

datatype dist = Choice "nat list"

datatype param = DistParam dist | NoneParam

text \<open>
  Nengo adds every object created inside a \<^verbatim>\<open>with nengo.Network(...)\<close> block to that
  network. An object is named by its position in \<open>objects\<close>; a layer keeps the object
  it was applied to and its \<^verbatim>\<open>shape_in\<close>. A probe keeps the \<^verbatim>\<open>synapse\<close> argument it
  was given, \<open>None\<close> when it was given none.
\<close>

datatype net_obj =
    InputNode nat
  | Applied layer_func nat "(nat \<times> nat \<times> nat) option"

record probe =
  target :: nat
  synapse :: "decimal option"
  label :: string

record network =
  seed :: nat
  config :: "(string \<times> string \<times> param) list"
  stateful :: "bool option"
  objects :: "net_obj list"
  probes :: "probe list"

text \<open>\<^verbatim>\<open>nengo.Network(seed=s)\<close>\<close>

definition Network :: "nat \<Rightarrow> network" where
  "Network s = \<lparr>seed = s, config = [], stateful = None, objects = [], probes = []\<rparr>"

text \<open>\<^verbatim>\<open>net.config[nengo.C].p = v\<close>\<close>

definition set_config :: "string \<Rightarrow> string \<Rightarrow> param \<Rightarrow> network \<Rightarrow> network" where
  "set_config c p v net = net\<lparr>config := config net @ [(c, p, v)]\<rparr>"

text \<open>\<^verbatim>\<open>nengo_dl.configure_settings(stateful=b)\<close>\<close>

definition configure_settings :: "bool \<Rightarrow> network \<Rightarrow> network" where
  "configure_settings b net = net\<lparr>stateful := Some b\<rparr>"

text \<open>\<^verbatim>\<open>nengo.Node(np.zeros(d))\<close>\<close>

definition Node :: "nat \<Rightarrow> network \<Rightarrow> nat \<times> network" where
  "Node d net = (length (objects net), net\<lparr>objects := objects net @ [InputNode d]\<rparr>)"

text \<open>\<^verbatim>\<open>nengo_dl.Layer(f)(x, shape_in=s)\<close>\<close>

definition Layer ::
  "layer_func \<Rightarrow> nat \<Rightarrow> (nat \<times> nat \<times> nat) option \<Rightarrow> network \<Rightarrow> nat \<times> network" where
  "Layer f x shape_in net =
     (length (objects net), net\<lparr>objects := objects net @ [Applied f x shape_in]\<rparr>)"

text \<open>\<^verbatim>\<open>nengo.Probe(x, synapse=s, label=l)\<close>\<close>

definition Probe :: "nat \<Rightarrow> decimal option \<Rightarrow> string \<Rightarrow> network \<Rightarrow> probe \<times> network" where
  "Probe x s l net =
     (\<lparr>target = x, synapse = s, label = l\<rparr>,
      net\<lparr>probes := probes net @ [\<lparr>target = x, synapse = s, label = l\<rparr>]\<rparr>)"

text \<open>
  The network cell: the block's statements in order; \<open>x\<close> is rebound as in the source.
  The cell leaves \<open>net\<close>, \<open>inp\<close>, \<open>out\<close>, \<open>out_p\<close> and \<open>out_p_filt\<close> to the later cells.
\<close>

definition network_cell :: "network \<times> nat \<times> nat \<times> probe \<times> probe" where
  "network_cell =
     (let net = Network 0;
          net = set_config ''Ensemble'' ''max_rates'' (DistParam (Choice [100])) net;
          net = set_config ''Ensemble'' ''intercepts'' (DistParam (Choice [0])) net;
          net = set_config ''Connection'' ''synapse'' NoneParam net;
          neuron_type = LIF (Decimal 1 2);
          net = configure_settings False net;
          (inp, net) = Node (28 * 28) net;
          (x, net) = Layer (KerasLayer (Conv2D 32 None 3)) inp (Some (28, 28, 1)) net;
          (x, net) = Layer (NeuronLayer neuron_type) x None net;
          (x, net) = Layer (KerasLayer (Conv2D 64 (Some 2) 3)) x (Some (26, 26, 32)) net;
          (x, net) = Layer (NeuronLayer neuron_type) x None net;
          (x, net) = Layer (KerasLayer (Conv2D 128 (Some 2) 3)) x (Some (12, 12, 64)) net;
          (x, net) = Layer (NeuronLayer neuron_type) x None net;
          (out, net) = Layer (KerasLayer (Dense 10)) x None net;
          (out_p, net) = Probe out None ''out_p'' net;
          (out_p_filt, net) = Probe out (Some (Decimal 1 1)) ''out_p_filt'' net
      in (net, inp, out, out_p, out_p_filt))"

definition net :: network where
  "net = fst network_cell"

definition inp :: nat where
  "inp = fst (snd network_cell)"

definition out :: nat where
  "out = fst (snd (snd network_cell))"

definition out_p :: probe where
  "out_p = fst (snd (snd (snd network_cell)))"

definition out_p_filt :: probe where
  "out_p_filt = snd (snd (snd (snd network_cell)))"

text \<open>
  The layers between the input node and an object, first layer first: the object's own
  layer function after the layers of the object it was applied to. \<open>fuel\<close> bounds the
  walk; the number of objects is enough.
\<close>

fun layers_upto :: "net_obj list \<Rightarrow> nat \<Rightarrow> nat \<Rightarrow> layer_func list" where
  "layers_upto objs 0 x = []"
| "layers_upto objs (Suc fuel) x =
     (if x < length objs
      then (case objs ! x of
              InputNode d \<Rightarrow> []
            | Applied f y s \<Rightarrow> layers_upto objs fuel y @ [f])
      else [])"

definition layer_sequence :: "network \<Rightarrow> nat \<Rightarrow> layer_func list" where
  "layer_sequence n x = layers_upto (objects n) (length (objects n)) x"

text \<open>
  The shape the claim gives the topology: convolutions, each followed by a neuron
  layer, then a dense readout of 10 units.
\<close>

fun conv_neuron_readout :: "layer_func list \<Rightarrow> bool" where
  "conv_neuron_readout [KerasLayer (Dense u)] = (u = 10)"
| "conv_neuron_readout (KerasLayer (Conv2D f s k) # NeuronLayer n # rest) = conv_neuron_readout rest"
| "conv_neuron_readout ls = False"

subsection \<open>The notebook as a script\<close>

text \<open>
  The calls the notebook makes into its libraries, with their arguments. A call stands
  for its statement, the evaluation of its arguments included: the constructors of
  layers, losses and optimizers are values here. What is plotted is named, not
  computed: \<open>TrainImage i\<close> is \<^verbatim>\<open>np.reshape(train_images[i], (28, 28))\<close>,
  \<open>TrainLabel i\<close> is \<^verbatim>\<open>str(train_labels[i])\<close>, \<open>TestImage i t\<close> is
  \<^verbatim>\<open>test_images[i, t].reshape((28, 28))\<close> and \<open>SoftmaxPrediction p i\<close> is
  \<^verbatim>\<open>tf.nn.softmax(data[p][i])\<close>; the labels of a legend are \<^verbatim>\<open>str(i)\<close> for the listed \<open>i\<close>.
\<close>

datatype optimizer = RMSprop decimal

datatype loss = ClassificationAccuracy | SparseCategoricalCrossentropy (from_logits: bool)

datatype plot_data =
    TrainImage nat
  | TrainLabel nat
  | TestImage nat nat
  | SoftmaxPrediction probe nat

datatype plt_call =
    Figure nat nat
  | Subplot nat nat nat
  | Imshow plot_data string
  | Axis string
  | Title plot_data
  | Plot plot_data
  | Legend "nat list" string
  | Xlabel string
  | Ylabel string
  | TightLayout

datatype call =
    Magic string
  | Import string
  | MnistLoadData
  | Plt plt_call
  | WithNetwork network
  | Simulator network nat
  | Compile "optimizer option" "(probe \<times> loss) list"
  | Evaluate "uint8 array3" "(probe \<times> uint8 array3) list" nat
  | Fit "uint8 array3" "(probe \<times> uint8 array3) list" nat
  | SaveParams string
  | UrlRetrieve string string
  | LoadParams string
  | Predict "uint8 array3"
  | Print string
  | Close

text \<open>
  The statements of the notebook's cells: a call, \<^verbatim>\<open>if b: ... else: ...\<close>,
  \<^verbatim>\<open>for i in range(n): ...\<close>, and \<^verbatim>\<open>try: ... except: ...\<close>. The bodies are
  sequences of calls, which is all the notebook nests.
\<close>

datatype stmt =
    Expr call
  | IfElse bool "call list" "call list"
  | ForRange nat "nat \<Rightarrow> call list"
  | TryExcept "call list" "call list"

text \<open>
  A library call returns or raises. Which, the repository does not say: \<open>lib tr c\<close> is
  the exception call \<open>c\<close> raises after the calls \<open>tr\<close>, if it raises.
\<close>

datatype exn = Exn string

type_synonym library = "call list \<Rightarrow> call \<Rightarrow> exn option"

text \<open>
  Running calls in sequence appends each to the trace; the first one that raises ends
  the sequence with its exception.
\<close>

fun run_calls :: "library \<Rightarrow> call list \<Rightarrow> call list \<Rightarrow> call list \<times> exn option" where
  "run_calls lib [] tr = (tr, None)"
| "run_calls lib (c # cs) tr =
     (case lib tr c of
        Some e \<Rightarrow> (tr @ [c], Some e)
      | None \<Rightarrow> run_calls lib cs (tr @ [c]))"

fun exec_stmt :: "library \<Rightarrow> stmt \<Rightarrow> call list \<Rightarrow> call list \<times> exn option" where
  "exec_stmt lib (Expr c) tr = run_calls lib [c] tr"
| "exec_stmt lib (IfElse b cs1 cs2) tr = run_calls lib (if b then cs1 else cs2) tr"
| "exec_stmt lib (ForRange n body) tr = run_calls lib (concat (map body [0..<n])) tr"
| "exec_stmt lib (TryExcept body handler) tr =
     (case run_calls lib body tr of
        (tr', Some e) \<Rightarrow> run_calls lib handler tr'
      | (tr', None) \<Rightarrow> (tr', None))"

fun exec :: "library \<Rightarrow> stmt list \<Rightarrow> call list \<Rightarrow> call list \<times> exn option" where
  "exec lib [] tr = (tr, None)"
| "exec lib (s # ss) tr =
     (case exec_stmt lib s tr of
        (tr', Some e) \<Rightarrow> (tr', Some e)
      | (tr', None) \<Rightarrow> exec lib ss tr')"

definition run :: "library \<Rightarrow> stmt list \<Rightarrow> call list \<times> exn option" where
  "run lib p = exec lib p []"

text \<open>The library in which every call returns.\<close>

definition returns :: library where
  "returns tr c = None"

subsection \<open>The cells\<close>

definition import_cell :: "stmt list" where
  "import_cell =
     [Expr (Magic ''matplotlib inline''),
      Expr (Import ''urllib.request''),
      Expr (Import ''nengo''),
      Expr (Import ''tensorflow''),
      Expr (Import ''numpy''),
      Expr (Import ''matplotlib.pyplot''),
      Expr (Import ''nengo_dl'')]"

definition load_cell :: "stmt list" where
  "load_cell =
     [Expr MnistLoadData,
      Expr (Plt (Figure 12 4)),
      ForRange 3 (\<lambda>i.
        [Plt (Subplot 1 3 (i + 1)),
         Plt (Imshow (TrainImage i) ''gray''),
         Plt (Axis ''off''),
         Plt (Title (TrainLabel i))])]"

definition minibatch_size :: nat where
  "minibatch_size = 200"

definition simulator_cell :: "stmt list" where
  "simulator_cell = [Expr (Simulator net minibatch_size)]"

definition accuracy_cell :: "string \<Rightarrow> mnist \<Rightarrow> stmt list" where
  "accuracy_cell heading ds =
     [Expr (Compile None [(out_p_filt, ClassificationAccuracy)]),
      Expr (Evaluate (test_images ds) [(out_p_filt, test_labels ds)] 0),
      Expr (Print heading)]"

text \<open>The first argument of the cell's \<^verbatim>\<open>urlretrieve\<close>, two adjacent string literals.\<close>

definition pretrained_weights_url :: string where
  "pretrained_weights_url =
     ''https://drive.google.com/uc?export=download&'' @ ''id=1l5aivQljFoXzPP5JVccdFXbOYRv3BCJR''"

definition do_training :: bool where
  "do_training = False"

definition training_cell :: "bool \<Rightarrow> mnist \<Rightarrow> stmt list" where
  "training_cell training ds =
     [IfElse training
        [Compile (Some (RMSprop (Decimal 1 3))) [(out_p, SparseCategoricalCrossentropy True)],
         Fit (train_images ds) [(out_p, train_labels ds)] 10,
         SaveParams ''./mnist_params'']
        [UrlRetrieve pretrained_weights_url ''mnist_params.npz'',
         LoadParams ''./mnist_params'']]"

definition plot_cell :: "mnist \<Rightarrow> stmt list" where
  "plot_cell ds =
     [Expr (Predict (take minibatch_size (test_images ds))),
      ForRange 5 (\<lambda>i.
        [Plt (Figure 8 4),
         Plt (Subplot 1 2 1),
         Plt (Imshow (TestImage i 0) ''gray''),
         Plt (Axis ''off''),
         Plt (Subplot 1 2 2),
         Plt (Plot (SoftmaxPrediction out_p_filt i)),
         Plt (Legend [0..<10] ''upper left''),
         Plt (Xlabel ''timesteps''),
         Plt (Ylabel ''probability''),
         Plt TightLayout])]"

definition close_cell :: "stmt list" where
  "close_cell = [Expr Close]"

text \<open>
  The notebook, cell after cell, for either value of the flag the training cell tests;
  \<open>ds\<close> is what the data set loader returns to it. The cell that adds the time axis
  makes no call; its values are \<open>train_images\<close>,
  \<open>train_labels\<close>, \<open>test_images\<close> and \<open>test_labels\<close> above.
\<close>

definition notebook_with :: "bool \<Rightarrow> mnist \<Rightarrow> stmt list" where
  "notebook_with training ds =
     import_cell @ load_cell @ [Expr (WithNetwork net)] @ simulator_cell
       @ accuracy_cell ''Accuracy before training:'' ds
       @ training_cell training ds
       @ accuracy_cell ''Accuracy after training:'' ds
       @ plot_cell ds @ close_cell"

text \<open>The notebook as written: \<^verbatim>\<open>do_training = False\<close>.\<close>

definition notebook :: "mnist \<Rightarrow> stmt list" where
  "notebook ds = notebook_with do_training ds"

subsection \<open>Reading a script and a trace\<close>

text \<open>
  The statement forms a script uses: a branch with the value of its condition, a loop
  with the size of its range.
\<close>

datatype stmt_kind = Sequential | Branch bool | Loop nat | Handler

fun kind_of :: "stmt \<Rightarrow> stmt_kind" where
  "kind_of (Expr c) = Sequential"
| "kind_of (IfElse b cs1 cs2) = Branch b"
| "kind_of (ForRange n body) = Loop n"
| "kind_of (TryExcept body handler) = Handler"

definition straight_line :: "stmt list \<Rightarrow> bool" where
  "straight_line p = list_all (\<lambda>s. kind_of s = Sequential) p"

definition control_flow :: "stmt list \<Rightarrow> stmt_kind list" where
  "control_flow p = filter (\<lambda>k. k \<noteq> Sequential) (map kind_of p)"

definition no_handler :: "stmt list \<Rightarrow> bool" where
  "no_handler p = (Handler \<notin> set (map kind_of p))"

text \<open>The calls a statement makes when none of them raises, and those of a script.\<close>

fun stmt_calls :: "stmt \<Rightarrow> call list" where
  "stmt_calls (Expr c) = [c]"
| "stmt_calls (IfElse b cs1 cs2) = (if b then cs1 else cs2)"
| "stmt_calls (ForRange n body) = concat (map body [0..<n])"
| "stmt_calls (TryExcept body handler) = body"

definition calls :: "stmt list \<Rightarrow> call list" where
  "calls p = concat (map stmt_calls p)"

text \<open>
  The steps the specification names: (a) fetch the data set, (b) declare the network,
  (c) construct the simulator, (d) train or load weights, (e) evaluate, (f) plot. The
  other calls (imports, \<^verbatim>\<open>compile\<close>, \<^verbatim>\<open>predict\<close>, \<^verbatim>\<open>print\<close>, \<^verbatim>\<open>close\<close>) belong to none.
\<close>

datatype step = Fetch | Declare | Construct | TrainOrLoad | Evaluation | Plotting

fun step_of :: "call \<Rightarrow> step option" where
  "step_of MnistLoadData = Some Fetch"
| "step_of (WithNetwork n) = Some Declare"
| "step_of (Simulator n b) = Some Construct"
| "step_of (Fit x y n) = Some TrainOrLoad"
| "step_of (SaveParams f) = Some TrainOrLoad"
| "step_of (UrlRetrieve u f) = Some TrainOrLoad"
| "step_of (LoadParams f) = Some TrainOrLoad"
| "step_of (Evaluate x y v) = Some Evaluation"
| "step_of (Plt c) = Some Plotting"
| "step_of c = None"

definition steps :: "call list \<Rightarrow> step list" where
  "steps tr = remdups_adj (List.map_filter step_of tr)"

text \<open>Calls that fetch over the network: the data set loader and \<^verbatim>\<open>urlretrieve\<close>.\<close>

fun network_fetch :: "call \<Rightarrow> bool" where
  "network_fetch MnistLoadData = True"
| "network_fetch (UrlRetrieve u f) = True"
| "network_fetch c = False"

fun is_fit :: "call \<Rightarrow> bool" where
  "is_fit (Fit x y n) = True"
| "is_fit c = False"

fun is_save_params :: "call \<Rightarrow> bool" where
  "is_save_params (SaveParams f) = True"
| "is_save_params c = False"

fun is_load_params :: "call \<Rightarrow> bool" where
  "is_load_params (LoadParams f) = True"
| "is_load_params c = False"

fun is_simulator :: "call \<Rightarrow> bool" where
  "is_simulator (Simulator n b) = True"
| "is_simulator c = False"

text \<open>
  The \<^verbatim>\<open>fit\<close> and \<^verbatim>\<open>evaluate\<close> calls of a trace, each with the arguments of the last
  \<^verbatim>\<open>compile\<close> before it.
\<close>

type_synonym compiled = "optimizer option \<times> (probe \<times> loss) list"

fun with_compile :: "compiled option \<Rightarrow> call list \<Rightarrow> (compiled option \<times> call) list" where
  "with_compile cfg [] = []"
| "with_compile cfg (Compile opt l # cs) = with_compile (Some (opt, l)) cs"
| "with_compile cfg (Fit x y n # cs) = (cfg, Fit x y n) # with_compile cfg cs"
| "with_compile cfg (Evaluate x y v # cs) = (cfg, Evaluate x y v) # with_compile cfg cs"
| "with_compile cfg (c # cs) = with_compile cfg cs"

text \<open>A library in which the download fails and every other call returns.\<close>

definition download_fails :: library where
  "download_fails tr c = (case c of UrlRetrieve u f \<Rightarrow> Some (Exn ''URLError'') | _ \<Rightarrow> None)"

text \<open>A library in which the data set loader fails and every other call returns.\<close>

definition loader_fails :: library where
  "loader_fails tr c = (case c of MnistLoadData \<Rightarrow> Some (Exn ''Exception'') | _ \<Rightarrow> None)"

text \<open>The calls that write or read the file of weights.\<close>

fun weight_file_call :: "call \<Rightarrow> bool" where
  "weight_file_call (SaveParams f) = True"
| "weight_file_call (UrlRetrieve u f) = True"
| "weight_file_call (LoadParams f) = True"
| "weight_file_call c = False"

subsection \<open>A small data set\<close>

text \<open>One training and one test image of 2 by 2 pixels, in the format of \<open>mnist\<close>.\<close>

definition example_mnist :: mnist where
  "example_mnist = \<lparr>loaded_train_images = [[[1, 2], [3, 4]]], loaded_train_labels = [7],
     loaded_test_images = [[[5, 6], [7, 8]]], loaded_test_labels = [9]\<rparr>"

section \<open>Properties\<close>

subsection \<open>Arrays\<close>

lemma tile_axis_one: "tile_axis (Suc 0) xs = xs"
  by (simp add: tile_axis_def)

lemma tile_axis_singleton: "tile_axis r [x] = replicate r x"
  by (induction r) (simp_all add: tile_axis_def)

lemma tile_time_axis:
  "tile (map (\<lambda>x. [f x]) xs) (Suc 0, r, Suc 0) = map (\<lambda>x. replicate r (f x)) xs"
  by (simp add: tile_def tile_axis_one tile_axis_singleton comp_def)

lemma test_images_eq:
  "test_images ds = map (\<lambda>img. replicate n_steps (concat img)) (loaded_test_images ds)"
proof -
  have "add_time_axis (test_images_flat ds) = map (\<lambda>img. [concat img]) (loaded_test_images ds)"
    by (simp add: add_time_axis_def test_images_flat_def flatten_images_def comp_def)
  then show ?thesis
    by (simp add: test_images_def tile_time_axis)
qed

lemma test_labels_eq:
  "test_labels ds = map (\<lambda>l. replicate n_steps [l]) (loaded_test_labels ds)"
  by (simp add: test_labels_def add_time_axes_def tile_time_axis)

lemma last_timestep_Inr:
  "\<forall>i<length y. y ! i \<noteq> [] \<Longrightarrow> last_timestep y = Inr (map last y)"
  by (auto simp: last_timestep_def list_ex_iff in_set_conv_nth)

lemma map_last_cong:
  assumes "length y = length y'" and "\<forall>i<length y. last (y ! i) = last (y' ! i)"
  shows "map last y = map last y'"
  using assms by (intro nth_equalityI) simp_all

text \<open>
  C9. After the time-axis cell every training example has exactly one timestep, image
  and label, and every test example has \<open>n_steps = 30\<close> timesteps that all hold the
  same value: the flattened image it was loaded as, and its label.
\<close>

theorem time_axis_prepared:
  assumes "i < length (loaded_train_images ds)"
    and "l < length (loaded_train_labels ds)"
    and "j < length (loaded_test_images ds)"
    and "k < length (loaded_test_labels ds)"
    and "s < 30" and "t < 30"
  shows "n_steps = 30
    \<and> length (train_images ds ! i) = 1
    \<and> train_images ds ! i = [concat (loaded_train_images ds ! i)]
    \<and> train_labels ds ! l = [[loaded_train_labels ds ! l]]
    \<and> length (test_images ds ! j) = 30
    \<and> test_images ds ! j ! s = test_images ds ! j ! t
    \<and> test_images ds ! j ! s = concat (loaded_test_images ds ! j)
    \<and> length (test_labels ds ! k) = 30
    \<and> test_labels ds ! k ! s = test_labels ds ! k ! t
    \<and> test_labels ds ! k ! s = [loaded_test_labels ds ! k]"
  using assms
  by (simp add: test_images_eq test_labels_eq n_steps_def train_images_def train_labels_def
      train_images_flat_def add_time_axis_def add_time_axes_def flatten_images_def)

theorem time_axis_prepared_witness:
  "n_steps = 30
    \<and> length (train_images example_mnist ! 0) = 1
    \<and> train_images example_mnist ! 0 = [concat (loaded_train_images example_mnist ! 0)]
    \<and> train_labels example_mnist ! 0 = [[loaded_train_labels example_mnist ! 0]]
    \<and> length (test_images example_mnist ! 0) = 30
    \<and> test_images example_mnist ! 0 ! 4 = test_images example_mnist ! 0 ! 29
    \<and> test_images example_mnist ! 0 ! 4 = concat (loaded_test_images example_mnist ! 0)
    \<and> length (test_labels example_mnist ! 0) = 30
    \<and> test_labels example_mnist ! 0 ! 4 = test_labels example_mnist ! 0 ! 29
    \<and> test_labels example_mnist ! 0 ! 4 = [loaded_test_labels example_mnist ! 0]"
  by (rule time_axis_prepared) (simp_all add: example_mnist_def)

text \<open>
  C8. \<open>classification_accuracy\<close> reads only the last timestep: two pairs of arguments
  whose examples agree at the last timestep get the same result, whatever the earlier
  timesteps hold and however many there are.
\<close>

theorem classification_accuracy_last_timestep_only:
  assumes "length y_true = length y_true'"
    and "\<forall>i<length y_true. y_true ! i \<noteq> [] \<and> y_true' ! i \<noteq> []
           \<and> last (y_true ! i) = last (y_true' ! i)"
    and "length y_pred = length y_pred'"
    and "\<forall>i<length y_pred. y_pred ! i \<noteq> [] \<and> y_pred' ! i \<noteq> []
           \<and> last (y_pred ! i) = last (y_pred' ! i)"
  shows "classification_accuracy sca y_true y_pred = classification_accuracy sca y_true' y_pred'"
proof -
  have t: "last_timestep y_true = Inr (map last y_true)"
    using assms(2) by (intro last_timestep_Inr) blast
  have t': "last_timestep y_true' = Inr (map last y_true')"
    using assms(1,2) by (intro last_timestep_Inr) metis
  have p: "last_timestep y_pred = Inr (map last y_pred)"
    using assms(4) by (intro last_timestep_Inr) blast
  have p': "last_timestep y_pred' = Inr (map last y_pred')"
    using assms(3,4) by (intro last_timestep_Inr) metis
  have "map last y_true = map last y_true'"
    using assms(1,2) by (intro map_last_cong) blast+
  moreover have "map last y_pred = map last y_pred'"
    using assms(3,4) by (intro map_last_cong) blast+
  ultimately show ?thesis
    unfolding classification_accuracy_def t t' p p' by simp
qed

theorem classification_accuracy_last_timestep_only_witness:
  "classification_accuracy (\<lambda>t p. (t, p)) [[[3::nat], [7]]] [[[0::nat, 1], [1, 0]]]
     = classification_accuracy (\<lambda>t p. (t, p)) [[[9], [8], [7]]] [[[5, 5], [1, 0]]]
   \<and> classification_accuracy (\<lambda>t p. (t, p)) [[[9::nat], [8], [7]]] [[[5::nat, 5], [1, 0]]]
     = Inr ([[7]], [[1, 0]])"
proof -
  have "classification_accuracy (\<lambda>t p. (t, p)) [[[3::nat], [7]]] [[[0::nat, 1], [1, 0]]]
     = classification_accuracy (\<lambda>t p. (t, p)) [[[9], [8], [7]]] [[[5, 5], [1, 0]]]"
    by (rule classification_accuracy_last_timestep_only) simp_all
  moreover have "classification_accuracy (\<lambda>t p. (t, p)) [[[9::nat], [8], [7]]] [[[5::nat, 5], [1, 0]]]
     = Inr ([[7]], [[1, 0]])"
    by (simp add: classification_accuracy_def last_timestep_def)
  ultimately show ?thesis by simp
qed

subsection \<open>Running a script\<close>

lemma run_calls_append:
  "run_calls lib (cs @ ds) tr =
     (case run_calls lib cs tr of
        (tr', Some e) \<Rightarrow> (tr', Some e)
      | (tr', None) \<Rightarrow> run_calls lib ds tr')"
  by (induction cs arbitrary: tr) (simp_all split: option.splits)

lemma exec_stmt_calls:
  "kind_of s \<noteq> Handler \<Longrightarrow> exec_stmt lib s tr = run_calls lib (stmt_calls s) tr"
  by (cases s) simp_all

lemma exec_calls:
  "no_handler p \<Longrightarrow> exec lib p tr = run_calls lib (calls p) tr"
proof (induction p arbitrary: tr)
  case Nil
  then show ?case by (simp add: calls_def)
next
  case (Cons s p)
  then have s: "kind_of s \<noteq> Handler" and p: "no_handler p"
    by (auto simp: no_handler_def)
  have "calls (s # p) = stmt_calls s @ calls p"
    by (simp add: calls_def)
  then show ?case
    using Cons.IH [OF p] by (simp add: exec_stmt_calls [OF s] run_calls_append)
qed

lemma run_calls_returns: "run_calls returns cs tr = (tr @ cs, None)"
  by (induction cs arbitrary: tr) (simp_all add: returns_def)

lemma run_calls_prefix: "prefix (fst (run_calls lib cs tr)) (tr @ cs)"
proof (induction cs arbitrary: tr)
  case Nil
  then show ?case by simp
next
  case (Cons c cs)
  show ?case
  proof (cases "lib tr c")
    case None
    then show ?thesis using Cons [of "tr @ [c]"] by simp
  next
    case (Some e)
    then show ?thesis by simp
  qed
qed

lemma run_calls_extends: "prefix tr (fst (run_calls lib cs tr))"
proof (induction cs arbitrary: tr)
  case Nil
  then show ?case by simp
next
  case (Cons c cs)
  show ?case
  proof (cases "lib tr c")
    case None
    have "prefix tr (tr @ [c])" by simp
    also have "prefix (tr @ [c]) (fst (run_calls lib cs (tr @ [c])))" by (rule Cons)
    finally show ?thesis using None by simp
  next
    case (Some e)
    then show ?thesis by simp
  qed
qed

lemma run_calls_completed:
  "snd (run_calls lib cs tr) = None \<Longrightarrow> fst (run_calls lib cs tr) = tr @ cs"
  by (induction cs arbitrary: tr) (auto split: option.splits)

lemma run_calls_raised:
  "run_calls lib cs tr = (tr', Some e) \<Longrightarrow> \<exists>pre c. tr' = pre @ [c] \<and> lib pre c = Some e"
  by (induction cs arbitrary: tr) (auto split: option.splits)

lemma run_calls_stops:
  assumes "run_calls lib cs tr = (tr', st)"
    and "prefix (pre @ [c]) tr'" and "length tr \<le> length pre" and "lib pre c = Some e"
  shows "tr' = pre @ [c] \<and> st = Some e"
  using assms
proof (induction cs arbitrary: tr)
  case Nil
  then have "length (pre @ [c]) \<le> length tr"
    by (auto dest: prefix_length_le)
  with Nil show ?case by simp
next
  case (Cons d cs)
  have ext: "prefix (tr @ [d]) tr'"
  proof (cases "lib tr d")
    case None
    then have "fst (run_calls lib cs (tr @ [d])) = tr'" using Cons.prems(1) by simp
    moreover have "prefix (tr @ [d]) (fst (run_calls lib cs (tr @ [d])))"
      by (rule run_calls_extends)
    ultimately show ?thesis by simp
  next
    case (Some e')
    then show ?thesis using Cons.prems(1) by simp
  qed
  show ?case
  proof (cases "length pre = length tr")
    case True
    have "prefix pre tr'" using Cons.prems(2) by (auto elim: prefixE)
    moreover have "prefix tr tr'" using ext by (auto elim: prefixE)
    ultimately have "pre = tr" using True
      by (metis prefix_length_prefix order_refl prefix_order.antisym)
    moreover have "c = d"
      using Cons.prems(2) ext \<open>pre = tr\<close> by (auto simp: prefix_def)
    ultimately show ?thesis using Cons.prems(1,4) by simp
  next
    case False
    then have len: "length (tr @ [d]) \<le> length pre" using Cons.prems(3) by simp
    have "lib tr d = None"
    proof (rule ccontr)
      assume "lib tr d \<noteq> None"
      then have "tr' = tr @ [d]" using Cons.prems(1) by auto
      then have "length (pre @ [c]) \<le> length (tr @ [d])"
        using Cons.prems(2) by (auto dest: prefix_length_le)
      with len show False by simp
    qed
    then have "run_calls lib cs (tr @ [d]) = (tr', st)" using Cons.prems(1) by simp
    from Cons.IH [OF this Cons.prems(2) len Cons.prems(4)] show ?thesis .
  qed
qed

text \<open>A handler, where a script has one, does catch: the run goes on without the exception.\<close>

lemma handler_catches:
  "lib tr c = Some e \<Longrightarrow> exec lib [TryExcept [c] []] tr = (tr @ [c], None)"
  by simp

subsection \<open>The notebook's runs\<close>

lemmas cell_defs = notebook_with_def import_cell_def load_cell_def simulator_cell_def
  accuracy_cell_def training_cell_def plot_cell_def close_cell_def

lemma range_3: "[0..<3] = [0, 1, 2]"
  by (simp add: upt_rec)

lemma range_5: "[0..<5] = [0, 1, 2, 3, 4]"
  by (simp add: upt_rec)

lemma notebook_no_handler: "no_handler (notebook_with b ds)"
  by (simp add: no_handler_def cell_defs)

lemma run_trace:
  assumes "run lib (notebook_with b ds) = (tr, st)"
  shows "prefix tr (calls (notebook_with b ds))"
    and "st = None \<Longrightarrow> tr = calls (notebook_with b ds)"
proof -
  have r: "run_calls lib (calls (notebook_with b ds)) [] = (tr, st)"
    using assms by (simp add: run_def exec_calls notebook_no_handler)
  show "prefix tr (calls (notebook_with b ds))"
    using run_calls_prefix [of lib "calls (notebook_with b ds)" "[]"] r by simp
  show "tr = calls (notebook_with b ds)" if "st = None"
    using run_calls_completed [of lib "calls (notebook_with b ds)" "[]"] r that by simp
qed

lemma run_returns: "run returns (notebook_with b ds) = (calls (notebook_with b ds), None)"
  by (simp add: run_def exec_calls notebook_no_handler run_calls_returns)

lemma calls_weight_file_calls:
  "filter weight_file_call (calls (notebook_with b ds)) =
     (if b then [SaveParams ''./mnist_params'']
      else [UrlRetrieve pretrained_weights_url ''mnist_params.npz'', LoadParams ''./mnist_params''])"
  by (simp add: calls_def cell_defs range_3 range_5)

lemma calls_network_fetch:
  "filter network_fetch (calls (notebook_with b ds)) =
     MnistLoadData # (if b then [] else [UrlRetrieve pretrained_weights_url ''mnist_params.npz''])"
  by (simp add: calls_def cell_defs range_3 range_5)

lemma calls_steps:
  "steps (calls (notebook_with b ds)) =
     [Fetch, Plotting, Declare, Construct, Evaluation, TrainOrLoad, Evaluation, Plotting]"
  by (simp add: calls_def cell_defs range_3 range_5 steps_def List.map_filter_simps)

lemma calls_with_compile:
  "with_compile None (calls (notebook_with b ds)) =
     (Some (None, [(out_p_filt, ClassificationAccuracy)]),
        Evaluate (test_images ds) [(out_p_filt, test_labels ds)] 0)
     # (if b
        then [(Some (Some (RMSprop (Decimal 1 3)), [(out_p, SparseCategoricalCrossentropy True)]),
                Fit (train_images ds) [(out_p, train_labels ds)] 10)]
        else [])
     @ [(Some (None, [(out_p_filt, ClassificationAccuracy)]),
          Evaluate (test_images ds) [(out_p_filt, test_labels ds)] 0)]"
  by (simp add: calls_def cell_defs range_3 range_5)

lemma calls_simulator:
  "filter is_simulator (calls (notebook_with b ds)) = [Simulator net minibatch_size]"
  by (simp add: calls_def cell_defs range_3 range_5)

lemma calls_fit_save:
  "filter (\<lambda>c. is_fit c \<or> is_save_params c) (calls (notebook_with False ds)) = []"
  by (simp add: calls_def cell_defs range_3 range_5)

lemma with_compile_append:
  "\<exists>cfg'. with_compile cfg (xs @ ys) = with_compile cfg xs @ with_compile cfg' ys"
  by (induction cfg xs rule: with_compile.induct) auto

lemma with_compile_prefix:
  "prefix xs zs \<Longrightarrow> prefix (with_compile cfg xs) (with_compile cfg zs)"
  using with_compile_append [of cfg xs] by (auto simp: prefix_def)

lemma network_cell_value:
  "network_cell =
     (\<lparr>seed = 0,
       config = [(''Ensemble'', ''max_rates'', DistParam (Choice [100])),
                 (''Ensemble'', ''intercepts'', DistParam (Choice [0])),
                 (''Connection'', ''synapse'', NoneParam)],
       stateful = Some False,
       objects = [InputNode 784,
                  Applied (KerasLayer (Conv2D 32 None 3)) 0 (Some (28, 28, 1)),
                  Applied (NeuronLayer (LIF (Decimal 1 2))) 1 None,
                  Applied (KerasLayer (Conv2D 64 (Some 2) 3)) 2 (Some (26, 26, 32)),
                  Applied (NeuronLayer (LIF (Decimal 1 2))) 3 None,
                  Applied (KerasLayer (Conv2D 128 (Some 2) 3)) 4 (Some (12, 12, 64)),
                  Applied (NeuronLayer (LIF (Decimal 1 2))) 5 None,
                  Applied (KerasLayer (Dense 10)) 6 None],
       probes = [\<lparr>target = 7, synapse = None, label = ''out_p''\<rparr>,
                 \<lparr>target = 7, synapse = Some (Decimal 1 1), label = ''out_p_filt''\<rparr>]\<rparr>,
      0, 7,
      \<lparr>target = 7, synapse = None, label = ''out_p''\<rparr>,
      \<lparr>target = 7, synapse = Some (Decimal 1 1), label = ''out_p_filt''\<rparr>)"
  by (simp add: network_cell_def Let_def Network_def set_config_def configure_settings_def
      Node_def Layer_def Probe_def)

lemma network_values:
  "objects net =
     [InputNode 784,
      Applied (KerasLayer (Conv2D 32 None 3)) 0 (Some (28, 28, 1)),
      Applied (NeuronLayer (LIF (Decimal 1 2))) 1 None,
      Applied (KerasLayer (Conv2D 64 (Some 2) 3)) 2 (Some (26, 26, 32)),
      Applied (NeuronLayer (LIF (Decimal 1 2))) 3 None,
      Applied (KerasLayer (Conv2D 128 (Some 2) 3)) 4 (Some (12, 12, 64)),
      Applied (NeuronLayer (LIF (Decimal 1 2))) 5 None,
      Applied (KerasLayer (Dense 10)) 6 None]"
  "probes net = [out_p, out_p_filt]"
  "inp = 0" "out = 7"
  "out_p = \<lparr>target = 7, synapse = None, label = ''out_p''\<rparr>"
  "out_p_filt = \<lparr>target = 7, synapse = Some (Decimal 1 1), label = ''out_p_filt''\<rparr>"
  by (simp_all add: net_def inp_def out_def out_p_def out_p_filt_def network_cell_value)

lemma notebook_as_written: "notebook ds = notebook_with False ds"
  by (simp add: notebook_def do_training_def)

lemma run_filter:
  assumes "run lib (notebook_with b ds) = (tr, st)"
  shows "prefix (filter P tr) (filter P (calls (notebook_with b ds)))"
    and "st = None \<Longrightarrow> filter P tr = filter P (calls (notebook_with b ds))"
  using run_trace [OF assms] by (simp_all add: filter_mono_prefix)

lemma run_download_fails:
  "run download_fails (notebook_with False example_mnist) =
     (calls (import_cell @ load_cell @ [Expr (WithNetwork net)] @ simulator_cell
              @ accuracy_cell ''Accuracy before training:'' example_mnist)
        @ [UrlRetrieve pretrained_weights_url ''mnist_params.npz''],
      Some (Exn ''URLError''))"
  by (simp add: run_def exec_calls notebook_no_handler)
    (simp add: calls_def cell_defs range_3 range_5 download_fails_def)

lemma run_loader_fails:
  "run loader_fails (notebook_with b ds) =
     (calls import_cell @ [MnistLoadData], Some (Exn ''Exception''))"
  by (simp add: run_def exec_calls notebook_no_handler)
    (simp add: calls_def cell_defs loader_fails_def)

lemma calls_save_params:
  "filter is_save_params (calls (notebook_with b ds)) =
     (if b then [SaveParams ''./mnist_params''] else [])"
  by (simp add: calls_def cell_defs range_3 range_5)

lemma calls_load_params:
  "filter is_load_params (calls (notebook_with b ds)) =
     (if b then [] else [LoadParams ''./mnist_params''])"
  by (simp add: calls_def cell_defs range_3 range_5)

lemma filter_Nil_list_ex: "filter P xs = [] \<Longrightarrow> \<not> list_ex P xs"
  by (simp add: filter_empty_conv list_ex_iff)

lemma run_returns_notebook:
  "fst (run returns (notebook ds)) = calls (notebook_with False ds)"
  by (simp add: notebook_as_written run_returns)

subsection \<open>The network and the simulator\<close>

text \<open>
  C5. The layers of the network cell form one sequence from the input node to \<open>out\<close>:
  three convolutions, each followed by a neuron layer, then a dense readout of 10
  units; the network holds nothing else but its two probes, both on \<open>out\<close>. Every run
  of the notebook constructs at most one simulator, a run that no exception ends
  constructs exactly one, and it is constructed from that network and the batch size
  \<open>minibatch_size = 200\<close>.
\<close>

theorem network_topology:
  assumes "run lib (notebook_with b ds) = (tr, st)"
  shows "layer_sequence net out =
      [KerasLayer (Conv2D 32 None 3), NeuronLayer (LIF (Decimal 1 2)),
       KerasLayer (Conv2D 64 (Some 2) 3), NeuronLayer (LIF (Decimal 1 2)),
       KerasLayer (Conv2D 128 (Some 2) 3), NeuronLayer (LIF (Decimal 1 2)),
       KerasLayer (Dense 10)]
    \<and> conv_neuron_readout (layer_sequence net out)
    \<and> objects net ! inp = InputNode (28 * 28)
    \<and> length (objects net) = 1 + length (layer_sequence net out)
    \<and> map target (probes net) = [out, out]
    \<and> prefix (filter is_simulator tr) [Simulator net minibatch_size]
    \<and> (st = None \<longrightarrow> filter is_simulator tr = [Simulator net minibatch_size])
    \<and> minibatch_size = 200"
proof -
  have seq: "layer_sequence net out =
      [KerasLayer (Conv2D 32 None 3), NeuronLayer (LIF (Decimal 1 2)),
       KerasLayer (Conv2D 64 (Some 2) 3), NeuronLayer (LIF (Decimal 1 2)),
       KerasLayer (Conv2D 128 (Some 2) 3), NeuronLayer (LIF (Decimal 1 2)),
       KerasLayer (Dense 10)]"
    by (simp add: layer_sequence_def network_values numeral_eq_Suc)
  have sim: "prefix (filter is_simulator tr) [Simulator net minibatch_size]"
    "st = None \<longrightarrow> filter is_simulator tr = [Simulator net minibatch_size]"
    using run_filter [OF assms, of is_simulator] by (simp_all add: calls_simulator)
  have "objects net ! inp = InputNode (28 * 28)"
    by (simp add: network_values)
  moreover have "length (objects net) = 1 + length (layer_sequence net out)"
    by (simp add: seq) (simp add: network_values)
  moreover have "map target (probes net) = [out, out]"
    by (simp add: network_values)
  moreover have "conv_neuron_readout (layer_sequence net out)"
    by (simp add: seq)
  ultimately show ?thesis
    using seq sim by (simp add: minibatch_size_def)
qed

theorem network_topology_witness:
  "conv_neuron_readout (layer_sequence net out)
    \<and> filter is_simulator (fst (run returns (notebook_with False example_mnist)))
        = [Simulator net 200]"
  using network_topology [of returns False example_mnist
      "calls (notebook_with False example_mnist)" None]
  by (simp add: run_returns)

subsection \<open>Training and evaluation calls\<close>

text \<open>
  C6. Every \<^verbatim>\<open>fit\<close> and \<^verbatim>\<open>evaluate\<close> call of a run is a call of the simulator with the
  inputs and a one-entry dictionary from an output probe to the targets. The
  \<^verbatim>\<open>fit\<close> call (made when the flag is set) has \<open>epochs = 10\<close> and follows a
  \<^verbatim>\<open>compile\<close> with the RMSprop optimizer and the sparse categorical cross-entropy loss
  on the probe without a synapse, \<open>out_p\<close>; both \<^verbatim>\<open>evaluate\<close> calls follow a
  \<^verbatim>\<open>compile\<close> with \<open>classification_accuracy\<close> on the filtered probe \<open>out_p_filt\<close>, and
  their targets are keyed on that probe. A run ended by an exception makes an initial
  part of these calls.
\<close>

theorem fit_and_evaluate_calls:
  assumes "run lib (notebook_with b ds) = (tr, st)"
  shows "prefix (with_compile None tr)
      ((Some (None, [(out_p_filt, ClassificationAccuracy)]),
          Evaluate (test_images ds) [(out_p_filt, test_labels ds)] 0)
       # (if b
          then [(Some (Some (RMSprop (Decimal 1 3)), [(out_p, SparseCategoricalCrossentropy True)]),
                  Fit (train_images ds) [(out_p, train_labels ds)] 10)]
          else [])
       @ [(Some (None, [(out_p_filt, ClassificationAccuracy)]),
            Evaluate (test_images ds) [(out_p_filt, test_labels ds)] 0)])
    \<and> (st = None \<longrightarrow> with_compile None tr =
      (Some (None, [(out_p_filt, ClassificationAccuracy)]),
          Evaluate (test_images ds) [(out_p_filt, test_labels ds)] 0)
       # (if b
          then [(Some (Some (RMSprop (Decimal 1 3)), [(out_p, SparseCategoricalCrossentropy True)]),
                  Fit (train_images ds) [(out_p, train_labels ds)] 10)]
          else [])
       @ [(Some (None, [(out_p_filt, ClassificationAccuracy)]),
            Evaluate (test_images ds) [(out_p_filt, test_labels ds)] 0)])
    \<and> synapse out_p = None \<and> synapse out_p_filt = Some (Decimal 1 1)
    \<and> target out_p = out \<and> target out_p_filt = out"
proof -
  have "prefix (with_compile None tr) (with_compile None (calls (notebook_with b ds)))"
    using run_trace(1) [OF assms] by (rule with_compile_prefix)
  moreover have "with_compile None tr = with_compile None (calls (notebook_with b ds))"
    if "st = None"
    using run_trace(2) [OF assms that] by simp
  moreover have "synapse out_p = None \<and> synapse out_p_filt = Some (Decimal 1 1)
    \<and> target out_p = out \<and> target out_p_filt = out"
    by (simp add: network_values)
  ultimately show ?thesis
    unfolding calls_with_compile by blast
qed

theorem fit_and_evaluate_calls_witness:
  "with_compile None (fst (run returns (notebook_with True example_mnist))) =
     [(Some (None, [(out_p_filt, ClassificationAccuracy)]),
         Evaluate (test_images example_mnist) [(out_p_filt, test_labels example_mnist)] 0),
      (Some (Some (RMSprop (Decimal 1 3)), [(out_p, SparseCategoricalCrossentropy True)]),
         Fit (train_images example_mnist) [(out_p, train_labels example_mnist)] 10),
      (Some (None, [(out_p_filt, ClassificationAccuracy)]),
         Evaluate (test_images example_mnist) [(out_p_filt, test_labels example_mnist)] 0)]"
  using fit_and_evaluate_calls [of returns True example_mnist
      "calls (notebook_with True example_mnist)" None]
  by (simp add: run_returns)

subsection \<open>Order of the steps and control flow\<close>

text \<open>
  C2, as stated, fails: the notebook is not a straight-line script. Its training cell
  is an \<^verbatim>\<open>if do_training: ... else: ...\<close>, and two cells loop over a range.
\<close>

theorem notebook_has_a_branch:
  "\<not> straight_line (notebook example_mnist)
    \<and> Branch do_training \<in> set (map kind_of (notebook example_mnist))"
  by (simp add: straight_line_def notebook_def cell_defs)

text \<open>
  C2, amended. A run of the notebook that no exception ends goes through the steps in
  the order fetch, plot (the first digits), declare the network, construct the
  simulator, evaluate, train or load weights, evaluate, plot; the order (a) to (f) of
  the specification is contained in it. The notebook's own control flow is one
  \<^verbatim>\<open>if\<close>/\<^verbatim>\<open>else\<close> on the flag \<open>do_training\<close> and two \<^verbatim>\<open>for\<close> loops, over
  \<^verbatim>\<open>range(3)\<close> before it and \<^verbatim>\<open>range(5)\<close> after it; it has no exception handler.
\<close>

theorem notebook_steps_and_control_flow:
  assumes "run lib (notebook_with b ds) = (tr, None)"
  shows "steps tr =
      [Fetch, Plotting, Declare, Construct, Evaluation, TrainOrLoad, Evaluation, Plotting]
    \<and> subseq [Fetch, Declare, Construct, TrainOrLoad, Evaluation, Plotting] (steps tr)
    \<and> control_flow (notebook_with b ds) = [Loop 3, Branch b, Loop 5]"
proof -
  have "tr = calls (notebook_with b ds)"
    using run_trace(2) [OF assms] by simp
  then have "steps tr =
      [Fetch, Plotting, Declare, Construct, Evaluation, TrainOrLoad, Evaluation, Plotting]"
    by (simp add: calls_steps)
  moreover have "control_flow (notebook_with b ds) = [Loop 3, Branch b, Loop 5]"
    by (simp add: control_flow_def cell_defs)
  ultimately show ?thesis by simp
qed

theorem notebook_steps_and_control_flow_witness:
  "steps (fst (run returns (notebook example_mnist))) =
      [Fetch, Plotting, Declare, Construct, Evaluation, TrainOrLoad, Evaluation, Plotting]
    \<and> control_flow (notebook example_mnist) = [Loop 3, Branch False, Loop 5]"
  using notebook_steps_and_control_flow [of returns False example_mnist
      "calls (notebook_with False example_mnist)"]
  by (simp add: run_returns notebook_as_written)

subsection \<open>The file of weights\<close>

text \<open>
  C3, as stated, fails: in a run of the notebook as written the weights that
  \<^verbatim>\<open>load_params\<close> reads were not written by \<^verbatim>\<open>save_params\<close>, which is never called.
\<close>

theorem load_without_save:
  "LoadParams ''./mnist_params'' \<in> set (fst (run returns (notebook example_mnist)))
    \<and> \<not> list_ex is_save_params (fst (run returns (notebook example_mnist)))"
  unfolding run_returns_notebook
  by (simp add: calls_def cell_defs range_3 range_5)

text \<open>
  C3, amended. \<^verbatim>\<open>save_params\<close> and \<^verbatim>\<open>load_params\<close> are given the same path,
  \<^verbatim>\<open>./mnist_params\<close>, but no run makes both calls: a run calls \<^verbatim>\<open>save_params\<close> only
  with the flag set, and \<^verbatim>\<open>load_params\<close> only without it (the notebook as written) and
  only after \<^verbatim>\<open>urlretrieve\<close> has downloaded pretrained weights into
  \<^verbatim>\<open>mnist_params.npz\<close>. A run that no exception ends makes exactly these calls on the
  file of weights: \<^verbatim>\<open>save_params\<close> alone with the flag set, \<^verbatim>\<open>urlretrieve\<close> and then
  \<^verbatim>\<open>load_params\<close> without it. A run that an exception ends makes an initial part of
  them, which may be none.
\<close>

theorem weight_file_written_or_read:
  assumes "run lib (notebook_with b ds) = (tr, st)"
  shows "prefix (filter weight_file_call tr)
      (if b then [SaveParams ''./mnist_params'']
       else [UrlRetrieve pretrained_weights_url ''mnist_params.npz'',
             LoadParams ''./mnist_params''])
    \<and> \<not> (list_ex is_save_params tr \<and> list_ex is_load_params tr)
    \<and> (list_ex is_save_params tr \<longrightarrow> b)
    \<and> (list_ex is_load_params tr \<longrightarrow> \<not> b)
    \<and> (st = None \<longrightarrow> filter weight_file_call tr =
      (if b then [SaveParams ''./mnist_params'']
       else [UrlRetrieve pretrained_weights_url ''mnist_params.npz'',
             LoadParams ''./mnist_params'']))"
proof -
  have save: "\<not> list_ex is_save_params tr" if "\<not> b"
    using run_filter(1) [OF assms, of is_save_params] that
    by (simp add: calls_save_params filter_Nil_list_ex)
  have load: "\<not> list_ex is_load_params tr" if "b"
    using run_filter(1) [OF assms, of is_load_params] that
    by (simp add: calls_load_params filter_Nil_list_ex)
  show ?thesis
    using run_filter [OF assms, of weight_file_call] save load
    unfolding calls_weight_file_calls by blast
qed

theorem weight_file_written_or_read_witness:
  "filter weight_file_call (fst (run returns (notebook_with True example_mnist))) =
      [SaveParams ''./mnist_params'']
    \<and> filter weight_file_call (fst (run returns (notebook_with False example_mnist))) =
      [UrlRetrieve pretrained_weights_url ''mnist_params.npz'', LoadParams ''./mnist_params'']"
  using weight_file_written_or_read [of returns True example_mnist
      "calls (notebook_with True example_mnist)" None]
    weight_file_written_or_read [of returns False example_mnist
      "calls (notebook_with False example_mnist)" None]
  by (simp add: run_returns)

subsection \<open>External inputs\<close>

text \<open>
  C4, as stated, fails: the notebook as written fetches from a second network endpoint,
  the Google Drive address its \<^verbatim>\<open>urlretrieve\<close> call is given.
\<close>

theorem download_besides_dataset:
  "UrlRetrieve pretrained_weights_url ''mnist_params.npz''
      \<in> set (fst (run returns (notebook example_mnist)))
    \<and> network_fetch (UrlRetrieve pretrained_weights_url ''mnist_params.npz'')
    \<and> UrlRetrieve pretrained_weights_url ''mnist_params.npz'' \<noteq> MnistLoadData
    \<and> take 24 pretrained_weights_url = ''https://drive.google.com''"
  unfolding run_returns_notebook
  by (simp add: calls_def cell_defs range_3 range_5 pretrained_weights_url_def)

text \<open>
  C4, amended. The notebook fetches over the network twice at most: the MNIST data
  through the data set loader and then, when the flag \<open>do_training\<close> is not set (the
  notebook as written), pretrained weights through \<^verbatim>\<open>urlretrieve\<close> from the Google
  Drive address; no other call fetches. None of its calls reads command-line arguments
  or environment variables: the calls it makes are those of \<open>call\<close>.
\<close>

theorem network_fetches:
  assumes "run lib (notebook_with b ds) = (tr, st)"
  shows "prefix (filter network_fetch tr)
      (MnistLoadData
       # (if b then [] else [UrlRetrieve pretrained_weights_url ''mnist_params.npz'']))
    \<and> (st = None \<longrightarrow> filter network_fetch tr =
      MnistLoadData
       # (if b then [] else [UrlRetrieve pretrained_weights_url ''mnist_params.npz'']))"
  using run_filter [OF assms, of network_fetch]
  unfolding calls_network_fetch by blast

theorem network_fetches_witness:
  "filter network_fetch (fst (run returns (notebook example_mnist))) =
      [MnistLoadData, UrlRetrieve pretrained_weights_url ''mnist_params.npz'']"
  using network_fetches [of returns False example_mnist
      "calls (notebook_with False example_mnist)" None]
  by (simp add: run_returns notebook_as_written)

subsection \<open>Exceptions\<close>

text \<open>
  C7. The notebook has no exception handler. In every run, a call that raises is the
  last call made, and its exception is the outcome of the run: nothing is caught,
  nothing is retried, no later call is made. A run that ends with an exception ends
  with the one its last call raised, and a run without one makes every call.
\<close>

theorem failures_propagate:
  assumes "run lib (notebook_with b ds) = (tr, st)"
  shows "no_handler (notebook_with b ds)
    \<and> (\<forall>pre c e. prefix (pre @ [c]) tr \<and> lib pre c = Some e \<longrightarrow> tr = pre @ [c] \<and> st = Some e)
    \<and> (\<forall>e. st = Some e \<longrightarrow> (\<exists>pre c. tr = pre @ [c] \<and> lib pre c = Some e))
    \<and> (st = None \<longrightarrow> tr = calls (notebook_with b ds))"
proof -
  have r: "run_calls lib (calls (notebook_with b ds)) [] = (tr, st)"
    using assms by (simp add: run_def exec_calls notebook_no_handler)
  have "tr = pre @ [c] \<and> st = Some e" if "prefix (pre @ [c]) tr" and "lib pre c = Some e"
    for pre c e
    using run_calls_stops [OF r that(1) _ that(2)] by simp
  moreover have "\<exists>pre c. tr = pre @ [c] \<and> lib pre c = Some e" if "st = Some e" for e
    using run_calls_raised [of lib "calls (notebook_with b ds)" "[]" tr e] r that by simp
  moreover have "tr = calls (notebook_with b ds)" if "st = None"
    using run_trace(2) [OF assms that] .
  ultimately show ?thesis
    using notebook_no_handler [of b ds] by blast
qed

theorem failures_propagate_witness:
  "snd (run download_fails (notebook_with False example_mnist)) = Some (Exn ''URLError'')
    \<and> last (fst (run download_fails (notebook_with False example_mnist)))
        = UrlRetrieve pretrained_weights_url ''mnist_params.npz''
    \<and> \<not> list_ex is_load_params (fst (run download_fails (notebook_with False example_mnist)))
    \<and> no_handler (notebook_with False example_mnist)"
proof -
  have "no_handler (notebook_with False example_mnist)"
    using failures_propagate [OF run_download_fails] by blast
  moreover have "\<not> list_ex is_load_params
      (calls (import_cell @ load_cell @ [Expr (WithNetwork net)] @ simulator_cell
              @ accuracy_cell ''Accuracy before training:'' example_mnist)
        @ [UrlRetrieve pretrained_weights_url ''mnist_params.npz''])"
    by (simp add: calls_def cell_defs range_3)
  ultimately show ?thesis
    unfolding run_download_fails by simp
qed

subsection \<open>The training branch\<close>

text \<open>
  C10, as stated, fails: not every run of the notebook as written downloads the weights
  and calls \<^verbatim>\<open>load_params\<close>, and not every run makes exactly one of the save and the
  load call. A run whose data set loader raises ends there; it makes neither call.
\<close>

theorem run_without_save_or_load:
  "snd (run loader_fails (notebook example_mnist)) = Some (Exn ''Exception'')
    \<and> \<not> list_ex is_load_params (fst (run loader_fails (notebook example_mnist)))
    \<and> \<not> list_ex is_save_params (fst (run loader_fails (notebook example_mnist)))
    \<and> filter weight_file_call (fst (run loader_fails (notebook example_mnist))) = []"
  unfolding notebook_as_written run_loader_fails
  by (simp add: calls_def import_cell_def)

text \<open>
  C10, amended. The notebook as written sets \<open>do_training = False\<close>, and its training
  branch is unreachable: no run calls \<^verbatim>\<open>fit\<close> or \<^verbatim>\<open>save_params\<close>, so no run makes both
  the save and the load call. A run calls \<^verbatim>\<open>load_params\<close> at most once, and only after
  \<^verbatim>\<open>urlretrieve\<close>. Every run that no exception ends calls \<^verbatim>\<open>urlretrieve\<close> and then
  \<^verbatim>\<open>load_params\<close>, each exactly once; so of \<^verbatim>\<open>save_params\<close> and \<^verbatim>\<open>load_params\<close> it
  makes exactly one call, the load.
\<close>

theorem training_branch_unreachable:
  assumes "run lib (notebook ds) = (tr, st)"
  shows "\<not> do_training
    \<and> \<not> list_ex is_fit tr \<and> \<not> list_ex is_save_params tr
    \<and> length (filter is_load_params tr) \<le> 1
    \<and> prefix (filter weight_file_call tr)
         [UrlRetrieve pretrained_weights_url ''mnist_params.npz'', LoadParams ''./mnist_params'']
    \<and> (st = None \<longrightarrow>
         filter weight_file_call tr =
           [UrlRetrieve pretrained_weights_url ''mnist_params.npz'', LoadParams ''./mnist_params'']
         \<and> filter is_load_params tr = [LoadParams ''./mnist_params''])"
proof -
  have r: "run lib (notebook_with False ds) = (tr, st)"
    using assms by (simp add: notebook_as_written)
  have "filter (\<lambda>c. is_fit c \<or> is_save_params c) tr = []"
    using run_filter(1) [OF r, of "\<lambda>c. is_fit c \<or> is_save_params c"]
    by (simp add: calls_fit_save)
  then have no: "\<not> list_ex is_fit tr \<and> \<not> list_ex is_save_params tr"
    by (auto simp: filter_empty_conv list_ex_iff)
  have loads: "filter is_load_params (calls (notebook_with False ds)) = [LoadParams ''./mnist_params'']"
    by (simp add: calls_def cell_defs range_3 range_5)
  have "prefix (filter is_load_params tr) [LoadParams ''./mnist_params'']"
    using run_filter(1) [OF r, of is_load_params] by (simp add: loads)
  then have le: "length (filter is_load_params tr) \<le> 1"
    by (auto dest: prefix_length_le)
  have "filter weight_file_call tr =
      [UrlRetrieve pretrained_weights_url ''mnist_params.npz'', LoadParams ''./mnist_params'']
    \<and> filter is_load_params tr = [LoadParams ''./mnist_params'']" if "st = None"
    using run_filter(2) [OF r that] by (simp add: calls_weight_file_calls loads)
  moreover have "prefix (filter weight_file_call tr)
      [UrlRetrieve pretrained_weights_url ''mnist_params.npz'', LoadParams ''./mnist_params'']"
    using run_filter(1) [OF r, of weight_file_call] by (simp add: calls_weight_file_calls)
  ultimately show ?thesis
    using no le by (simp add: do_training_def)
qed

theorem training_branch_unreachable_witness:
  "\<not> list_ex is_fit (fst (run returns (notebook example_mnist)))
    \<and> \<not> list_ex is_save_params (fst (run returns (notebook example_mnist)))
    \<and> filter is_load_params (fst (run returns (notebook example_mnist)))
        = [LoadParams ''./mnist_params'']"
  using training_branch_unreachable [of returns example_mnist
      "fst (run returns (notebook example_mnist))" "snd (run returns (notebook example_mnist))"]
  by (simp add: notebook_as_written run_returns)

subsection \<open>The configuration of the evaluation\<close>

text \<open>
  Every \<^verbatim>\<open>evaluate\<close> call of the notebook as written passes the tiled test images and,
  keyed on \<open>out_p_filt\<close>, the tiled test labels; every example of these inputs has 30
  timesteps; and every simulator a run constructs has the batch size 200.
\<close>

theorem evaluation_configuration:
  assumes "run lib (notebook ds) = (tr, st)"
    and "Evaluate x y v \<in> set tr"
    and "Simulator n m \<in> set tr"
    and "i < length x"
  shows "x = test_images ds \<and> y = [(out_p_filt, test_labels ds)]
    \<and> length (x ! i) = 30 \<and> n_steps = 30 \<and> n = net \<and> m = 200"
proof -
  have "prefix tr (calls (notebook_with False ds))"
    using assms(1) by (simp add: notebook_as_written run_trace(1))
  then have sub: "set tr \<subseteq> set (calls (notebook_with False ds))"
    by (rule set_mono_prefix)
  have "Evaluate x y v \<in> set (calls (notebook_with False ds))"
    using sub assms(2) by blast
  then have xy: "x = test_images ds \<and> y = [(out_p_filt, test_labels ds)]"
    by (simp add: calls_def cell_defs range_3 range_5)
  have "Simulator n m \<in> set (calls (notebook_with False ds))"
    using sub assms(3) by blast
  then have nm: "n = net \<and> m = 200"
    by (simp add: calls_def cell_defs range_3 range_5 minibatch_size_def)
  have "length (x ! i) = 30"
    using assms(4) xy by (simp add: test_images_eq n_steps_def)
  then show ?thesis
    using xy nm by (simp add: n_steps_def)
qed

theorem evaluation_configuration_witness:
  "length (test_images example_mnist ! 0) = 30"
proof -
  have "Evaluate (test_images example_mnist) [(out_p_filt, test_labels example_mnist)] 0
      \<in> set (calls (notebook_with False example_mnist))"
    and "Simulator net 200 \<in> set (calls (notebook_with False example_mnist))"
    by (simp_all add: calls_def cell_defs range_3 range_5 minibatch_size_def)
  moreover have "run returns (notebook example_mnist)
      = (calls (notebook_with False example_mnist), None)"
    by (simp add: notebook_as_written run_returns)
  moreover have "0 < length (test_images example_mnist)"
    by (simp add: test_images_eq example_mnist_def)
  ultimately show ?thesis
    using evaluation_configuration by blast
qed

end
